theory Spec2Isabelle
  imports Main "HOL-Library.Sublist"
begin

section \<open>Go strings\<close>

text \<open>
  A Go string is a sequence of bytes; \<open>string\<close> (a list of 8-bit characters) is the
  same thing.  The functions of package \<open>strings\<close> and \<open>strconv\<close> that the commands
  call are written out here as the Go library documents them.
\<close>

definition asciiSpace :: "char \<Rightarrow> bool" where
  "asciiSpace c = (c \<in> set [CHR 0x09, CHR 0x0A, CHR 0x0B, CHR 0x0C, CHR 0x0D, CHR 0x20])"

text \<open>
  \<open>unicode.IsSpace\<close> beyond ASCII, as UTF-8: U+0085 and U+00A0 take two bytes,
  U+1680, U+2000 to U+200A, U+2028, U+2029, U+202F, U+205F and U+3000 take three.
\<close>

definition space2 :: "char \<Rightarrow> char \<Rightarrow> bool" where
  "space2 a b = (a = CHR 0xC2 \<and> (b = CHR 0x85 \<or> b = CHR 0xA0))"

definition space3 :: "char \<Rightarrow> char \<Rightarrow> char \<Rightarrow> bool" where
  "space3 a b c =
     ((a = CHR 0xE1 \<and> b = CHR 0x9A \<and> c = CHR 0x80) \<or>
      (a = CHR 0xE2 \<and> b = CHR 0x80 \<and>
         ((0x80 \<le> (of_char c :: nat) \<and> (of_char c :: nat) \<le> 0x8A) \<or>
          c = CHR 0xA8 \<or> c = CHR 0xA9 \<or> c = CHR 0xAF)) \<or>
      (a = CHR 0xE2 \<and> b = CHR 0x81 \<and> c = CHR 0x9F) \<or>
      (a = CHR 0xE3 \<and> b = CHR 0x80 \<and> c = CHR 0x80))"

fun TrimLeftSpace :: "string \<Rightarrow> string" where
  "TrimLeftSpace [] = []"
| "TrimLeftSpace [a] = (if asciiSpace a then [] else [a])"
| "TrimLeftSpace [a, b] =
     (if asciiSpace a then TrimLeftSpace [b]
      else if space2 a b then [] else [a, b])"
| "TrimLeftSpace (a # b # c # s) =
     (if asciiSpace a then TrimLeftSpace (b # c # s)
      else if space2 a b then TrimLeftSpace (c # s)
      else if space3 a b c then TrimLeftSpace s
      else a # b # c # s)"

text \<open>The same scan from the end of the string, on the reversed bytes.\<close>

fun TrimLeftSpaceRev :: "string \<Rightarrow> string" where
  "TrimLeftSpaceRev [] = []"
| "TrimLeftSpaceRev [a] = (if asciiSpace a then [] else [a])"
| "TrimLeftSpaceRev [a, b] =
     (if asciiSpace a then TrimLeftSpaceRev [b]
      else if space2 b a then [] else [a, b])"
| "TrimLeftSpaceRev (a # b # c # s) =
     (if asciiSpace a then TrimLeftSpaceRev (b # c # s)
      else if space2 b a then TrimLeftSpaceRev (c # s)
      else if space3 c b a then TrimLeftSpaceRev s
      else a # b # c # s)"

definition TrimRightSpace :: "string \<Rightarrow> string" where
  "TrimRightSpace s = rev (TrimLeftSpaceRev (rev s))"

definition TrimSpace :: "string \<Rightarrow> string" where
  "TrimSpace s = TrimRightSpace (TrimLeftSpace s)"

definition HasPrefix :: "string \<Rightarrow> string \<Rightarrow> bool" where
  "HasPrefix s p = (length p \<le> length s \<and> take (length p) s = p)"

fun Contains :: "string \<Rightarrow> string \<Rightarrow> bool" where
  "Contains [] sub = (sub = [])"
| "Contains (c # cs) sub = (HasPrefix (c # cs) sub \<or> Contains cs sub)"



subsection \<open>strconv.Atoi\<close>

datatype num_error = ErrSyntax | ErrRange

definition isDigit :: "char \<Rightarrow> bool" where
  "isDigit c = (0x30 \<le> (of_char c :: nat) \<and> (of_char c :: nat) \<le> 0x39)"

fun digitsValue :: "int \<Rightarrow> string \<Rightarrow> int" where
  "digitsValue n [] = n"
| "digitsValue n (ch # s) = digitsValue (n * 10 + (of_char ch - 0x30)) s"

definition splitSign :: "string \<Rightarrow> bool \<times> string" where
  "splitSign s =
     (case s of
        [] \<Rightarrow> (False, [])
      | c # r \<Rightarrow> if c = CHR ''-'' then (True, r)
                 else if c = CHR ''+'' then (False, r) else (False, s))"

text \<open>
  \<open>Atoi\<close> accepts an optional sign and one or more decimal digits, and the value has to
  fit the 64-bit \<open>int\<close>; any other string is a syntax error, a value out of the range of
  \<open>int\<close> a range error.
\<close>

definition Atoi :: "string \<Rightarrow> num_error + int" where
  "Atoi s =
     (let (neg, ds) = splitSign s in
      if ds = [] \<or> \<not> list_all isDigit ds then Inl ErrSyntax
      else
        let n = (if neg then - digitsValue 0 ds else digitsValue 0 ds) in
        if n < - (2 ^ 63) \<or> 2 ^ 63 \<le> n then Inl ErrRange else Inr n)"

section \<open>The host record and the errors of package config\<close>

text \<open>
  Modelled from the spec: the declaration of \<open>config.SSHHost\<close> is not among the source
  files.  The fields are those of the host record of section 3 of the specification,
  under the names \<open>runInfo\<close> and the completion function read them by and with the
  types their use there fixes: every directive value, the port too, is a Go \<open>string\<close>
  (the zero value \<open>""\<close> when the directive is not set), \<open>Tags\<close> is a slice of strings
  (\<open>None\<close> is the nil slice) and \<open>LineNumber\<close> an \<open>int\<close>.
\<close>

record SSHHost =
  Name :: string
  Hostname :: string
  User :: string
  Port :: string
  Identity :: string
  ProxyJump :: string
  ProxyCommand :: string
  Options :: string
  RemoteCommand :: string
  RequestTTY :: string
  Tags :: "string list option"
  SourceFile :: string
  LineNumber :: int

text \<open>
  Modelled from the spec: the kinds of error the configuration layer reports (section 7
  of the specification).  A Go \<open>error\<close> is a value of some dynamic type with a method
  \<open>Error()\<close> giving its message; \<open>err_kind\<close> stands for the former, \<open>err_Error\<close> for
  the latter.
\<close>

datatype error_kind = ParseError | NotFoundError | PortParseError | StaleEditError | WriteError

record go_error =
  err_kind :: error_kind
  err_Error :: string

section \<open>The info command\<close>

subsection \<open>The response and its JSON form\<close>

text \<open>
  A JSON document as a tree.  An object keeps its members in the order \<open>encoding/json\<close>
  writes them, which is the order of the struct's fields, under the names of the
  \<open>json\<close> tags.  \<open>json.Marshal\<close> and \<open>json.MarshalIndent\<close> differ in white space only,
  which the tree does not have.
\<close>

datatype json =
    JNull
  | JBool bool
  | JNum int
  | JStr string
  | JArr "json list"
  | JObj "(string \<times> json) list"

record infoError =
  Code :: string
  Message :: string
  Details :: "json option"

record infoSource =
  File :: string
  Line :: int

record infoTarget =
  tgt_Host :: string
  tgt_Hostname :: "string option"
  tgt_User :: "string option"
  tgt_Port :: "int option"

record infoResult =
  CanonicalName :: string
  Target :: infoTarget
  res_IdentityFile :: "string option"
  res_ProxyJump :: "string option"
  res_ProxyCommand :: "string option"
  res_Options :: "string option"
  res_Tags :: "string list option"
  res_RemoteCommand :: "string option"
  res_RequestTTY :: "string option"
  Source :: "infoSource option"

record infoResponse =
  Schema :: string
  OK :: bool
  resp_Hostname :: string
  Result :: "infoResult option"
  Error :: "infoError option"

definition jsonOptString :: "string option \<Rightarrow> json" where
  "jsonOptString v = (case v of None \<Rightarrow> JNull | Some s \<Rightarrow> JStr s)"

definition jsonOptInt :: "int option \<Rightarrow> json" where
  "jsonOptInt v = (case v of None \<Rightarrow> JNull | Some n \<Rightarrow> JNum n)"

definition jsonStrings :: "string list option \<Rightarrow> json" where
  "jsonStrings v = (case v of None \<Rightarrow> JNull | Some xs \<Rightarrow> JArr (map JStr xs))"

text \<open>
  \<open>Details\<close> is a \<open>json.RawMessage\<close>, a JSON text of its own: nil is written as \<open>null\<close>,
  any other as it is.
\<close>

definition jsonRaw :: "json option \<Rightarrow> json" where
  "jsonRaw v = (case v of None \<Rightarrow> JNull | Some raw \<Rightarrow> raw)"

definition jsonInfoError :: "infoError \<Rightarrow> json" where
  "jsonInfoError e =
     JObj [(''code'', JStr (Code e)), (''message'', JStr (Message e)),
           (''details'', jsonRaw (Details e))]"

definition jsonInfoSource :: "infoSource \<Rightarrow> json" where
  "jsonInfoSource s = JObj [(''file'', JStr (File s)), (''line'', JNum (Line s))]"

definition jsonInfoTarget :: "infoTarget \<Rightarrow> json" where
  "jsonInfoTarget t =
     JObj [(''host'', JStr (tgt_Host t)), (''hostname'', jsonOptString (tgt_Hostname t)),
           (''user'', jsonOptString (tgt_User t)), (''port'', jsonOptInt (tgt_Port t))]"

definition jsonInfoResult :: "infoResult \<Rightarrow> json" where
  "jsonInfoResult r =
     JObj [(''canonical_name'', JStr (CanonicalName r)),
           (''target'', jsonInfoTarget (Target r)),
           (''identity_file'', jsonOptString (res_IdentityFile r)),
           (''proxy_jump'', jsonOptString (res_ProxyJump r)),
           (''proxy_command'', jsonOptString (res_ProxyCommand r)),
           (''options'', jsonOptString (res_Options r)),
           (''tags'', jsonStrings (res_Tags r)),
           (''remote_command'', jsonOptString (res_RemoteCommand r)),
           (''request_tty'', jsonOptString (res_RequestTTY r)),
           (''source'', (case Source r of None \<Rightarrow> JNull | Some s \<Rightarrow> jsonInfoSource s))]"

definition jsonInfoResponse :: "infoResponse \<Rightarrow> json" where
  "jsonInfoResponse resp =
     JObj [(''schema'', JStr (Schema resp)), (''ok'', JBool (OK resp)),
           (''hostname'', JStr (resp_Hostname resp)),
           (''result'', (case Result resp of None \<Rightarrow> JNull | Some r \<Rightarrow> jsonInfoResult r)),
           (''error'', (case Error resp of None \<Rightarrow> JNull | Some e \<Rightarrow> jsonInfoError e))]"

subsection \<open>maybeString, maybePort, writeInfoJSON, runInfo\<close>

definition maybeString :: "string \<Rightarrow> string option" where
  "maybeString v =
     (let trimmed = TrimSpace v in
      if trimmed = [] then None else Some trimmed)"

definition maybePort :: "string \<Rightarrow> num_error + int option" where
  "maybePort v =
     (let trimmed = TrimSpace v in
      if trimmed = [] then Inr None
      else case Atoi trimmed of
             Inl err \<Rightarrow> Inl err
           | Inr port \<Rightarrow> Inr (Some port))"

text \<open>
  What the commands need from outside.  Package \<open>config\<close> is not among the source
  files: its six functions are taken as they come.  \<open>json_err\<close> is the error, if any,
  that \<open>json.Marshal\<close> or \<open>json.MarshalIndent\<close> returns; \<open>hist_NewHistoryManager\<close>
  and \<open>hist_RecordConnection\<close> are the errors of package \<open>history\<close>; \<open>ssh_Run\<close> is
  how the \<open>ssh\<close> process ends.  \<open>configFile\<close> and \<open>forceTTY\<close> are the package's flag
  variables.
\<close>

datatype run_result = RunOk | RunExitStatus int | RunError string

record world =
  configFile :: string
  forceTTY :: bool
  cfg_GetSSHHostFromFile :: "string \<Rightarrow> string \<Rightarrow> go_error + SSHHost"
  cfg_GetSSHHost :: "string \<Rightarrow> go_error + SSHHost"
  cfg_ParseSSHConfigFile :: "string \<Rightarrow> go_error + SSHHost list"
  cfg_ParseSSHConfig :: "go_error + SSHHost list"
  cfg_QuickHostExistsInFile :: "string \<Rightarrow> string \<Rightarrow> go_error + bool"
  cfg_QuickHostExists :: "string \<Rightarrow> go_error + bool"
  json_err :: "bool \<Rightarrow> infoResponse \<Rightarrow> string option"
  hist_NewHistoryManager :: "string option"
  hist_RecordConnection :: "string \<Rightarrow> string option"
  ssh_Run :: "string list \<Rightarrow> run_result"

text \<open>
  The document of the string literal that \<open>writeInfoJSON\<close> writes when marshalling fails.
  (The literal is a raw string: after the document it has the two characters backslash
  and \<open>n\<close>, not a line feed.  The tree has neither.)
\<close>

definition internalErrorDoc :: json where
  "internalErrorDoc =
     JObj [(''schema'', JStr ''sshm.info.v1''), (''ok'', JBool False),
           (''hostname'', JStr []), (''result'', JNull),
           (''error'', JObj [(''code'', JStr ''INTERNAL''),
                             (''message'', JStr ''failed to marshal JSON''),
                             (''details'', JNull)])]"

text \<open>The writer \<open>out\<close> is the list of the documents written so far.\<close>

definition writeInfoJSON :: "world \<Rightarrow> json list \<Rightarrow> bool \<Rightarrow> infoResponse \<Rightarrow> json list" where
  "writeInfoJSON w out pretty resp =
     (case json_err w pretty resp of
        Some err \<Rightarrow> out @ [internalErrorDoc]
      | None \<Rightarrow> out @ [jsonInfoResponse resp])"

definition runInfo :: "world \<Rightarrow> json list \<Rightarrow> string \<Rightarrow> string \<Rightarrow> bool \<Rightarrow> json list \<times> int" where
  "runInfo w out hostnameArg cfgFile pretty =
     (let resp = \<lparr>Schema = ''sshm.info.v1'', OK = False, resp_Hostname = hostnameArg,
                  Result = None, Error = None\<rparr> in
      case (if cfgFile \<noteq> [] then cfg_GetSSHHostFromFile w hostnameArg cfgFile
            else cfg_GetSSHHost w hostnameArg) of
        Inl err \<Rightarrow>
          (let msg = err_Error err;
               (code, errCode) =
                  (if Contains msg ''not found'' then (2, ''NOT_FOUND'')
                   else (1, ''CONFIG_ERROR''))
           in (writeInfoJSON w out pretty
                 (resp\<lparr>Error := Some \<lparr>Code = errCode, Message = msg, Details = None\<rparr>\<rparr>),
               code))
      | Inr host \<Rightarrow>
          (case maybePort (Port host) of
             Inl portErr \<Rightarrow>
               (writeInfoJSON w out pretty
                  (resp\<lparr>Error := Some \<lparr>Code = ''CONFIG_ERROR'',
                                        Message = ''invalid port in host configuration'',
                                        Details = None\<rparr>\<rparr>),
                1)
           | Inr port \<Rightarrow>
               (let res = \<lparr>CanonicalName = Name host,
                           Target = \<lparr>tgt_Host = hostnameArg,
                                     tgt_Hostname = maybeString (Hostname host),
                                     tgt_User = maybeString (User host),
                                     tgt_Port = port\<rparr>,
                           res_IdentityFile = maybeString (Identity host),
                           res_ProxyJump = maybeString (ProxyJump host),
                           res_ProxyCommand = maybeString (ProxyCommand host),
                           res_Options = maybeString (Options host),
                           res_Tags = Tags host,
                           res_RemoteCommand = maybeString (RemoteCommand host),
                           res_RequestTTY = maybeString (RequestTTY host),
                           Source = Some \<lparr>File = SourceFile host, Line = LineNumber host\<rparr>\<rparr>
                in (writeInfoJSON w out pretty (resp\<lparr>OK := True, Result := Some res\<rparr>), 0))))"

subsection \<open>Completion of the host argument\<close>




section \<open>The direct-connect path\<close>

text \<open>
  \<open>connectToHost\<close> returns nothing: it prints, records the connection, runs \<open>ssh\<close> and
  may end the process.  The model returns these effects in the order they happen; after
  an \<open>Exit\<close> nothing follows.  \<open>Log\<close> is the line \<open>log.Fatalf\<close> prints before it exits
  with status 1.
\<close>

datatype event =
    Stdout string
  | Log string
  | NewHistoryManager
  | RecordConnection string
  | Command string "string list"
  | Exit int

definition connectToHost :: "world \<Rightarrow> string \<Rightarrow> string list \<Rightarrow> event list" where
  "connectToHost w hostName remoteCommand =
     (case (if configFile w \<noteq> [] then cfg_QuickHostExistsInFile w hostName (configFile w)
            else cfg_QuickHostExists w hostName) of
        Inl err \<Rightarrow> [Log (''Error checking SSH config: '' @ err_Error err), Exit 1]
      | Inr hostFound \<Rightarrow>
          if \<not> hostFound then
            [Stdout (''Error: Host '' @ [CHR 0x27] @ hostName @ [CHR 0x27] @
                     '' not found in SSH configuration.'' @ [CHR 0x0A]),
             Stdout (''Use '' @ [CHR 0x27] @ ''sshm'' @ [CHR 0x27] @
                     '' to see available hosts.'' @ [CHR 0x0A]),
             Exit 1]
          else
            let history =
                  NewHistoryManager #
                  (case hist_NewHistoryManager w of
                     Some err \<Rightarrow>
                       [Stdout (''Warning: Could not initialize connection history: '' @ err @
                                [CHR 0x0A])]
                   | None \<Rightarrow>
                       RecordConnection hostName #
                       (case hist_RecordConnection w hostName of
                          Some err \<Rightarrow>
                            [Stdout (''Warning: Could not record connection history: '' @ err @
                                     [CHR 0x0A])]
                        | None \<Rightarrow> []));
                args0 = [];
                args1 = (if configFile w \<noteq> [] then args0 @ [''-F'', configFile w] else args0);
                args2 = (if forceTTY w then args1 @ [''-t''] else args1);
                args3 = args2 @ [hostName];
                args = (if length remoteCommand > 0 then args3 @ remoteCommand else args3);
                connecting =
                  (if length remoteCommand > 0 then []
                   else [Stdout (''Connecting to '' @ hostName @ ''...'' @ [CHR 0x0A])])
            in history @ connecting @ [Command ''ssh'' args] @
               (case ssh_Run w args of
                  RunOk \<Rightarrow> []
                | RunExitStatus status \<Rightarrow> [Exit status]
                | RunError err \<Rightarrow>
                    [Stdout (''Error executing SSH command: '' @ err @ [CHR 0x0A]), Exit 1]))"

section \<open>Reading JSON documents and decimal numerals\<close>

text \<open>What the statements below say about a document: its member names and members.\<close>

fun memberNames :: "json \<Rightarrow> string list" where
  "memberNames (JObj kvs) = map fst kvs"
| "memberNames _ = []"

fun member :: "string \<Rightarrow> json \<Rightarrow> json option" where
  "member k (JObj kvs) = map_of kvs k"
| "member k _ = None"

text \<open>The member at a path of names, \<open>None\<close> when a name on the way is missing.\<close>

fun memberAt :: "string list \<Rightarrow> json \<Rightarrow> json option" where
  "memberAt [] j = Some j"
| "memberAt (k # ks) j = (case member k j of None \<Rightarrow> None | Some v \<Rightarrow> memberAt ks v)"

definition isStringOrNull :: "json option \<Rightarrow> bool" where
  "isStringOrNull v = (case v of Some JNull \<Rightarrow> True | Some (JStr s) \<Rightarrow> True | _ \<Rightarrow> False)"

definition isString :: "json option \<Rightarrow> bool" where
  "isString v = (case v of Some (JStr s) \<Rightarrow> True | _ \<Rightarrow> False)"

definition isNumber :: "json option \<Rightarrow> bool" where
  "isNumber v = (case v of Some (JNum n) \<Rightarrow> True | _ \<Rightarrow> False)"

definition isNumberOrNull :: "json option \<Rightarrow> bool" where
  "isNumberOrNull v = (case v of Some JNull \<Rightarrow> True | Some (JNum n) \<Rightarrow> True | _ \<Rightarrow> False)"

definition isStringsOrNull :: "json option \<Rightarrow> bool" where
  "isStringsOrNull v =
     (case v of Some JNull \<Rightarrow> True
      | Some (JArr xs) \<Rightarrow> list_all (\<lambda>x. isString (Some x)) xs
      | _ \<Rightarrow> False)"

text \<open>The result object and the error object as section 6 of the specification lists them.\<close>

definition resultShape :: "json \<Rightarrow> bool" where
  "resultShape r =
     (memberNames r = [''canonical_name'', ''target'', ''identity_file'', ''proxy_jump'',
                       ''proxy_command'', ''options'', ''tags'', ''remote_command'',
                       ''request_tty'', ''source''] \<and>
      isString (member ''canonical_name'' r) \<and>
      map_option memberNames (member ''target'' r) =
        Some [''host'', ''hostname'', ''user'', ''port''] \<and>
      isString (memberAt [''target'', ''host''] r) \<and>
      isStringOrNull (memberAt [''target'', ''hostname''] r) \<and>
      isStringOrNull (memberAt [''target'', ''user''] r) \<and>
      isNumberOrNull (memberAt [''target'', ''port''] r) \<and>
      isStringOrNull (member ''identity_file'' r) \<and>
      isStringOrNull (member ''proxy_jump'' r) \<and>
      isStringOrNull (member ''proxy_command'' r) \<and>
      isStringOrNull (member ''options'' r) \<and>
      isStringsOrNull (member ''tags'' r) \<and>
      isStringOrNull (member ''remote_command'' r) \<and>
      isStringOrNull (member ''request_tty'' r) \<and>
      map_option memberNames (member ''source'' r) = Some [''file'', ''line''] \<and>
      isString (memberAt [''source'', ''file''] r) \<and>
      isNumber (memberAt [''source'', ''line''] r))"

definition errorShape :: "json \<Rightarrow> bool" where
  "errorShape e =
     (memberNames e = [''code'', ''message'', ''details''] \<and>
      isString (member ''code'' e) \<and> isString (member ''message'' e))"

text \<open>
  A decimal numeral: an optional sign, then one digit or more.  Its value is read with
  the last digit as the units.
\<close>

definition isDecimal :: "string \<Rightarrow> bool" where
  "isDecimal s =
     (case s of
        [] \<Rightarrow> False
      | c # r \<Rightarrow> if c = CHR ''-'' \<or> c = CHR ''+'' then r \<noteq> [] \<and> list_all isDigit r
                 else list_all isDigit s)"

fun unitsFirst :: "string \<Rightarrow> int" where
  "unitsFirst [] = 0"
| "unitsFirst (d # ds) = (of_char d - 0x30) + 10 * unitsFirst ds"

definition decimalValue :: "string \<Rightarrow> int" where
  "decimalValue s =
     (case s of
        [] \<Rightarrow> 0
      | c # r \<Rightarrow> if c = CHR ''-'' then - unitsFirst (rev r)
                 else if c = CHR ''+'' then unitsFirst (rev r)
                 else unitsFirst (rev s))"

text \<open>The lookup \<open>runInfo\<close> makes, and a directive value as the document shows it.\<close>

definition infoLookup :: "world \<Rightarrow> string \<Rightarrow> string \<Rightarrow> go_error + SSHHost" where
  "infoLookup w hostnameArg cfgFile =
     (if cfgFile \<noteq> [] then cfg_GetSSHHostFromFile w hostnameArg cfgFile
      else cfg_GetSSHHost w hostnameArg)"

definition trimmedOrNull :: "string \<Rightarrow> json" where
  "trimmedOrNull v = (if TrimSpace v = [] then JNull else JStr (TrimSpace v))"

text \<open>The existence check \<open>connectToHost\<close> makes, and the host list the completion reads.\<close>

definition quickCheck :: "world \<Rightarrow> string \<Rightarrow> go_error + bool" where
  "quickCheck w hostName =
     (if configFile w \<noteq> [] then cfg_QuickHostExistsInFile w hostName (configFile w)
      else cfg_QuickHostExists w hostName)"


definition isHistoryOrSsh :: "event \<Rightarrow> bool" where
  "isHistoryOrSsh ev =
     (case ev of NewHistoryManager \<Rightarrow> True | RecordConnection h \<Rightarrow> True
      | Command c args \<Rightarrow> True | _ \<Rightarrow> False)"

section \<open>The registry of package config\<close>













section \<open>Test data\<close>

text \<open>
  The configurations of the tests in \<open>info_test.go\<close> and \<open>completion_test.go\<close>, and a
  world over a list of hosts: a lookup finds the host of that name or fails with the
  given error, nothing else fails.
\<close>

definition unsetHost :: SSHHost where
  "unsetHost =
     \<lparr>Name = [], Hostname = [], User = [], Port = [], Identity = [], ProxyJump = [],
      ProxyCommand = [], Options = [], RemoteCommand = [], RequestTTY = [], Tags = None,
      SourceFile = ''/tmp/config'', LineNumber = 1\<rparr>"

definition prodWeb :: SSHHost where
  "prodWeb =
     unsetHost\<lparr>Name := ''prod-web'', Hostname := ''10.0.0.10'', User := ''deploy'',
               Port := ''2222'', Identity := ''~/.ssh/id_prod'', ProxyJump := ''bastion'',
               Tags := Some [''prod'', ''web''], LineNumber := 2\<rparr>"

definition threeHosts :: "SSHHost list" where
  "threeHosts =
     [unsetHost\<lparr>Name := ''prod-server'', Hostname := ''192.168.1.1'', User := ''admin''\<rparr>,
      unsetHost\<lparr>Name := ''dev-server'', Hostname := ''192.168.1.2'', User := ''developer'',
                LineNumber := 5\<rparr>,
      unsetHost\<lparr>Name := ''staging-db'', Hostname := ''192.168.1.3'', User := ''dbadmin'',
                LineNumber := 9\<rparr>]"

definition testWorld :: "string \<Rightarrow> bool \<Rightarrow> SSHHost list \<Rightarrow> go_error \<Rightarrow> world" where
  "testWorld cfg tty hosts notFound =
     \<lparr>configFile = cfg, forceTTY = tty,
      cfg_GetSSHHostFromFile =
        (\<lambda>name path. case find (\<lambda>h. Name h = name) hosts of
                        None \<Rightarrow> Inl notFound | Some h \<Rightarrow> Inr h),
      cfg_GetSSHHost =
        (\<lambda>name. case find (\<lambda>h. Name h = name) hosts of
                   None \<Rightarrow> Inl notFound | Some h \<Rightarrow> Inr h),
      cfg_ParseSSHConfigFile = (\<lambda>path. Inr hosts),
      cfg_ParseSSHConfig = Inr hosts,
      cfg_QuickHostExistsInFile = (\<lambda>name path. Inr (list_ex (\<lambda>h. Name h = name) hosts)),
      cfg_QuickHostExists = (\<lambda>name. Inr (list_ex (\<lambda>h. Name h = name) hosts)),
      json_err = (\<lambda>pretty resp. None),
      hist_NewHistoryManager = None,
      hist_RecordConnection = (\<lambda>name. None),
      ssh_Run = (\<lambda>args. RunOk)\<rparr>"

definition hostNotFound :: go_error where
  "hostNotFound = \<lparr>err_kind = NotFoundError, err_Error = ''host not found''\<rparr>"



section \<open>The responses of \<open>runInfo\<close>\<close>

text \<open>The two responses \<open>runInfo\<close> builds, named for the statements below.\<close>

definition failureResponse :: "string \<Rightarrow> string \<Rightarrow> string \<Rightarrow> infoResponse" where
  "failureResponse hostnameArg errCode msg =
     \<lparr>Schema = ''sshm.info.v1'', OK = False, resp_Hostname = hostnameArg, Result = None,
      Error = Some \<lparr>Code = errCode, Message = msg, Details = None\<rparr>\<rparr>"

definition successResponse :: "string \<Rightarrow> SSHHost \<Rightarrow> int option \<Rightarrow> infoResponse" where
  "successResponse hostnameArg host port =
     \<lparr>Schema = ''sshm.info.v1'', OK = True, resp_Hostname = hostnameArg,
      Result = Some
        \<lparr>CanonicalName = Name host,
         Target = \<lparr>tgt_Host = hostnameArg, tgt_Hostname = maybeString (Hostname host),
                   tgt_User = maybeString (User host), tgt_Port = port\<rparr>,
         res_IdentityFile = maybeString (Identity host),
         res_ProxyJump = maybeString (ProxyJump host),
         res_ProxyCommand = maybeString (ProxyCommand host),
         res_Options = maybeString (Options host),
         res_Tags = Tags host,
         res_RemoteCommand = maybeString (RemoteCommand host),
         res_RequestTTY = maybeString (RequestTTY host),
         Source = Some \<lparr>File = SourceFile host, Line = LineNumber host\<rparr>\<rparr>,
      Error = None\<rparr>"


definition portAbc :: SSHHost where
  "portAbc = unsetHost\<lparr>Name := ''x'', Port := ''abc''\<rparr>"

definition portBlank :: SSHHost where
  "portBlank = unsetHost\<lparr>Name := ''y'', Port := [CHR 0x20, CHR 0x09]\<rparr>"

definition portHuge :: SSHHost where
  "portHuge = unsetHost\<lparr>Name := ''z'', Port := ''9223372036854775808''\<rparr>"



definition isCommand :: "event \<Rightarrow> bool" where
  "isCommand ev = (case ev of Command c args \<Rightarrow> True | _ \<Rightarrow> False)"

section \<open>Numerals and ports\<close>

lemma unitsFirst_snoc:
  "unitsFirst (xs @ [d]) = unitsFirst xs + 10 ^ length xs * (of_char d - 0x30)"
  by (induction xs) (simp_all add: algebra_simps)

lemma digitsValue_unitsFirst:
  "digitsValue n ds = n * 10 ^ length ds + unitsFirst (rev ds)"
  by (induction ds arbitrary: n) (simp_all add: unitsFirst_snoc algebra_simps)

lemma Atoi_syntax: "Atoi s = Inl ErrSyntax \<longleftrightarrow> \<not> isDecimal s"
  by (cases s) (auto simp: Atoi_def splitSign_def isDecimal_def Let_def)

lemma Atoi_decimal:
  assumes "isDecimal s"
  shows "Atoi s = (if decimalValue s < - (2 ^ 63) \<or> 2 ^ 63 \<le> decimalValue s
                   then Inl ErrRange else Inr (decimalValue s))"
  using assms
  by (cases s) (auto simp: Atoi_def splitSign_def isDecimal_def decimalValue_def Let_def digitsValue_unitsFirst)

lemma Atoi_error_iff:
  "(\<exists>e. Atoi s = Inl e) \<longleftrightarrow>
     \<not> (isDecimal s \<and> - (2 ^ 63) \<le> decimalValue s \<and> decimalValue s < 2 ^ 63)"
proof (cases "isDecimal s")
  case True
  then show ?thesis by (auto simp: Atoi_decimal)
next
  case False
  then show ?thesis using Atoi_syntax [of s] by auto
qed

lemma maybePort_empty: "TrimSpace v = [] \<Longrightarrow> maybePort v = Inr None"
  by (simp add: maybePort_def)

lemma maybePort_error_iff:
  "(\<exists>e. maybePort v = Inl e) \<longleftrightarrow>
     TrimSpace v \<noteq> [] \<and>
     \<not> (isDecimal (TrimSpace v) \<and> - (2 ^ 63) \<le> decimalValue (TrimSpace v) \<and>
        decimalValue (TrimSpace v) < 2 ^ 63)"
proof (cases "TrimSpace v = []")
  case True
  then show ?thesis by (simp add: maybePort_empty)
next
  case False
  have "(\<exists>e. maybePort v = Inl e) \<longleftrightarrow> (\<exists>e. Atoi (TrimSpace v) = Inl e)"
    using False by (auto simp: maybePort_def split: sum.splits)
  then show ?thesis using False Atoi_error_iff [of "TrimSpace v"] by simp
qed

lemma maybePort_value:
  "maybePort v = Inr (Some n) \<longleftrightarrow>
     TrimSpace v \<noteq> [] \<and> isDecimal (TrimSpace v) \<and> decimalValue (TrimSpace v) = n \<and>
     - (2 ^ 63) \<le> n \<and> n < 2 ^ 63"
proof (cases "isDecimal (TrimSpace v)")
  case True
  then show ?thesis
    by (auto simp: maybePort_def Atoi_decimal Let_def split: sum.splits if_splits)
next
  case False
  then show ?thesis using Atoi_syntax [of "TrimSpace v"]
    by (auto simp: maybePort_def Let_def split: sum.splits if_splits)
qed

lemma maybeString_trimmedOrNull: "jsonOptString (maybeString v) = trimmedOrNull v"
  by (simp add: maybeString_def jsonOptString_def trimmedOrNull_def)

section \<open>The three ways \<open>runInfo\<close> ends\<close>

lemma runInfo_lookup_failed:
  assumes "infoLookup w hostnameArg cfgFile = Inl err"
  shows "runInfo w out hostnameArg cfgFile pretty =
     (writeInfoJSON w out pretty
        (failureResponse hostnameArg
           (if Contains (err_Error err) ''not found'' then ''NOT_FOUND'' else ''CONFIG_ERROR'')
           (err_Error err)),
      if Contains (err_Error err) ''not found'' then 2 else 1)"
  using assms unfolding runInfo_def infoLookup_def failureResponse_def
  by (simp del: Contains.simps)

lemma runInfo_port_failed:
  assumes "infoLookup w hostnameArg cfgFile = Inr host" and "maybePort (Port host) = Inl e"
  shows "runInfo w out hostnameArg cfgFile pretty =
     (writeInfoJSON w out pretty
        (failureResponse hostnameArg ''CONFIG_ERROR'' ''invalid port in host configuration''),
      1)"
  using assms unfolding runInfo_def infoLookup_def failureResponse_def by simp

lemma runInfo_succeeded:
  assumes "infoLookup w hostnameArg cfgFile = Inr host" and "maybePort (Port host) = Inr port"
  shows "runInfo w out hostnameArg cfgFile pretty =
     (writeInfoJSON w out pretty (successResponse hostnameArg host port), 0)"
  using assms unfolding runInfo_def infoLookup_def successResponse_def by simp

lemma runInfo_cases:
  obtains (lookup_failed) err where "infoLookup w hostnameArg cfgFile = Inl err"
  | (port_failed) host e where "infoLookup w hostnameArg cfgFile = Inr host"
      and "maybePort (Port host) = Inl e"
  | (succeeded) host port where "infoLookup w hostnameArg cfgFile = Inr host"
      and "maybePort (Port host) = Inr port"
proof (cases "infoLookup w hostnameArg cfgFile")
  case (Inl err)
  then show ?thesis by (rule lookup_failed)
next
  case (Inr host)
  then show ?thesis
    by (cases "maybePort (Port host)") (auto intro: port_failed succeeded)
qed

lemma writeInfoJSON_cases:
  obtains (internal) "writeInfoJSON w out pretty resp = out @ [internalErrorDoc]"
      and "json_err w pretty resp \<noteq> None"
  | (marshalled) "writeInfoJSON w out pretty resp = out @ [jsonInfoResponse resp]"
      and "json_err w pretty resp = None"
  by (cases "json_err w pretty resp") (auto simp: writeInfoJSON_def)






section \<open>The shape of the document\<close>

lemma internalErrorDoc_shape:
  "memberNames internalErrorDoc = [''schema'', ''ok'', ''hostname'', ''result'', ''error'']"
  "member ''schema'' internalErrorDoc = Some (JStr ''sshm.info.v1'')"
  "member ''ok'' internalErrorDoc = Some (JBool False)"
  "member ''result'' internalErrorDoc = Some JNull"
  "member ''error'' internalErrorDoc =
     Some (JObj [(''code'', JStr ''INTERNAL''), (''message'', JStr ''failed to marshal JSON''),
                 (''details'', JNull)])"
  by (simp_all add: internalErrorDoc_def)

lemma failure_shape:
  "memberNames (jsonInfoResponse (failureResponse h c m)) =
     [''schema'', ''ok'', ''hostname'', ''result'', ''error'']"
  "member ''schema'' (jsonInfoResponse (failureResponse h c m)) = Some (JStr ''sshm.info.v1'')"
  "member ''ok'' (jsonInfoResponse (failureResponse h c m)) = Some (JBool False)"
  "member ''result'' (jsonInfoResponse (failureResponse h c m)) = Some JNull"
  "member ''error'' (jsonInfoResponse (failureResponse h c m)) =
     Some (JObj [(''code'', JStr c), (''message'', JStr m), (''details'', JNull)])"
  by (simp_all add: jsonInfoResponse_def failureResponse_def jsonInfoError_def jsonRaw_def)

lemma success_shape:
  "memberNames (jsonInfoResponse (successResponse h host port)) =
     [''schema'', ''ok'', ''hostname'', ''result'', ''error'']"
  "member ''schema'' (jsonInfoResponse (successResponse h host port)) =
     Some (JStr ''sshm.info.v1'')"
  "member ''ok'' (jsonInfoResponse (successResponse h host port)) = Some (JBool True)"
  "member ''result'' (jsonInfoResponse (successResponse h host port)) =
     Some (jsonInfoResult (the (Result (successResponse h host port))))"
  "member ''error'' (jsonInfoResponse (successResponse h host port)) = Some JNull"
  by (simp_all add: jsonInfoResponse_def successResponse_def)

lemma isStringOrNull_opt [simp]: "isStringOrNull (Some (jsonOptString v))"
  by (cases v) (simp_all add: isStringOrNull_def jsonOptString_def)

lemma isNumberOrNull_opt [simp]: "isNumberOrNull (Some (jsonOptInt v))"
  by (cases v) (simp_all add: isNumberOrNull_def jsonOptInt_def)

lemma isStringsOrNull_strings [simp]: "isStringsOrNull (Some (jsonStrings v))"
  by (cases v) (simp_all add: isStringsOrNull_def jsonStrings_def isString_def list_all_iff)

lemma jsonInfoResult_not_null: "jsonInfoResult r \<noteq> JNull"
  by (simp add: jsonInfoResult_def)

lemma resultShape_jsonInfoResult:
  assumes "Source r \<noteq> None"
  shows "resultShape (jsonInfoResult r)"
proof -
  from assms obtain s where s: "Source r = Some s" by auto
  show ?thesis
    unfolding resultShape_def jsonInfoResult_def jsonInfoTarget_def jsonInfoSource_def s
    by (simp add: isString_def isNumber_def)
qed

lemma errorShape_object:
  "errorShape (JObj [(''code'', JStr c), (''message'', JStr m), (''details'', JNull)])"
  by (simp add: errorShape_def isString_def)

lemma runInfo_document:
  obtains (internal) code where
      "runInfo w out hostnameArg cfgFile pretty = (out @ [internalErrorDoc], code)"
  | (failure) c m code where
      "runInfo w out hostnameArg cfgFile pretty =
         (out @ [jsonInfoResponse (failureResponse hostnameArg c m)], code)"
  | (success) host port where
      "runInfo w out hostnameArg cfgFile pretty =
         (out @ [jsonInfoResponse (successResponse hostnameArg host port)], 0)"
proof (rule runInfo_cases [of w hostnameArg cfgFile])
  fix err
  assume l: "infoLookup w hostnameArg cfgFile = Inl err"
  show thesis
    by (rule writeInfoJSON_cases [of w out pretty "failureResponse hostnameArg
          (if Contains (err_Error err) ''not found'' then ''NOT_FOUND'' else ''CONFIG_ERROR'')
          (err_Error err)"])
       (auto simp add: runInfo_lookup_failed [OF l] intro: internal failure
             simp del: Contains.simps)
next
  fix host e
  assume l: "infoLookup w hostnameArg cfgFile = Inr host" "maybePort (Port host) = Inl e"
  show thesis
    by (rule writeInfoJSON_cases [of w out pretty "failureResponse hostnameArg
          ''CONFIG_ERROR'' ''invalid port in host configuration''"])
       (auto simp add: runInfo_port_failed [OF l] intro: internal failure)
next
  fix host port
  assume l: "infoLookup w hostnameArg cfgFile = Inr host" "maybePort (Port host) = Inr port"
  show thesis
    by (rule writeInfoJSON_cases [of w out pretty "successResponse hostnameArg host port"])
       (auto simp add: runInfo_succeeded [OF l] intro: internal success)
qed

text \<open>
  C2.  The document \<open>runInfo\<close> writes has the members \<open>schema\<close>, \<open>ok\<close>, \<open>hostname\<close>,
  \<open>result\<close> and \<open>error\<close>; \<open>schema\<close> is \<open>sshm.info.v1\<close>; \<open>ok\<close> is a boolean, true exactly
  when \<open>result\<close> is not null; exactly one of \<open>result\<close> and \<open>error\<close> is not null; a result
  is an object of canonical name, target (host, hostname, user, port), identity file,
  proxy jump, proxy command, options, tags, remote command, request TTY and source
  (file, line), an error an object of code, message and details.
\<close>

theorem C2_info_document_schema:
  "\<exists>doc. fst (runInfo w out hostnameArg cfgFile pretty) = out @ [doc] \<and>
     memberNames doc = [''schema'', ''ok'', ''hostname'', ''result'', ''error''] \<and>
     member ''schema'' doc = Some (JStr ''sshm.info.v1'') \<and>
     member ''ok'' doc = Some (JBool (member ''result'' doc \<noteq> Some JNull)) \<and>
     (member ''result'' doc = Some JNull) \<noteq> (member ''error'' doc = Some JNull) \<and>
     (case member ''result'' doc of
        None \<Rightarrow> False | Some JNull \<Rightarrow> True | Some r \<Rightarrow> resultShape r) \<and>
     (case member ''error'' doc of
        None \<Rightarrow> False | Some JNull \<Rightarrow> True | Some e \<Rightarrow> errorShape e)"
proof (rule runInfo_document [of w out hostnameArg cfgFile pretty])
  fix code
  assume "runInfo w out hostnameArg cfgFile pretty = (out @ [internalErrorDoc], code)"
  then show ?thesis
    by (simp add: internalErrorDoc_shape errorShape_object)
next
  fix c m code
  assume "runInfo w out hostnameArg cfgFile pretty =
            (out @ [jsonInfoResponse (failureResponse hostnameArg c m)], code)"
  then show ?thesis
    by (simp add: failure_shape errorShape_object)
next
  fix host port
  assume run: "runInfo w out hostnameArg cfgFile pretty =
            (out @ [jsonInfoResponse (successResponse hostnameArg host port)], 0)"
  have src: "Source (the (Result (successResponse hostnameArg host port))) \<noteq> None"
    by (simp add: successResponse_def)
  have shape: "resultShape (jsonInfoResult (the (Result (successResponse hostnameArg host port))))"
    by (rule resultShape_jsonInfoResult [OF src])
  show ?thesis
    unfolding run using shape
    by (cases "jsonInfoResult (the (Result (successResponse hostnameArg host port)))")
       (simp_all add: success_shape jsonInfoResult_not_null)
qed

theorem C2_info_document_schema_witness:
  "\<exists>doc. fst (runInfo (testWorld [] False [prodWeb] hostNotFound) [] ''prod-web''
                ''/tmp/config'' False) = [doc] \<and>
     member ''schema'' doc = Some (JStr ''sshm.info.v1'') \<and>
     member ''ok'' doc = Some (JBool True) \<and>
     member ''error'' doc = Some JNull \<and>
     memberAt [''result'', ''target'', ''port''] doc = Some (JNum 2222)"
proof -
  have port: "maybePort ''2222'' = Inr (Some 2222)"
    by (simp add: maybePort_value TrimSpace_def TrimRightSpace_def asciiSpace_def space2_def
          space3_def isDecimal_def isDigit_def decimalValue_def)
  have run: "runInfo (testWorld [] False [prodWeb] hostNotFound) [] ''prod-web''
                ''/tmp/config'' False =
             ([jsonInfoResponse (successResponse ''prod-web'' prodWeb (Some 2222))], 0)"
    by (subst runInfo_succeeded [where host = prodWeb and port = "Some 2222"])
       (simp_all add: infoLookup_def testWorld_def prodWeb_def unsetHost_def port
          writeInfoJSON_def)
  from C2_info_document_schema
    [of "testWorld [] False [prodWeb] hostNotFound" "[]" "''prod-web''" "''/tmp/config''" False]
  show ?thesis
    unfolding run
    by (auto simp add: jsonInfoResponse_def successResponse_def jsonInfoResult_def
          jsonInfoTarget_def jsonOptInt_def)
qed

section \<open>Optional strings and the port\<close>

lemma success_members:
  "memberAt [''result'', ''target'', ''hostname'']
     (jsonInfoResponse (successResponse h host port)) = Some (trimmedOrNull (Hostname host))"
  "memberAt [''result'', ''target'', ''user'']
     (jsonInfoResponse (successResponse h host port)) = Some (trimmedOrNull (User host))"
  "memberAt [''result'', ''target'', ''port'']
     (jsonInfoResponse (successResponse h host port)) = Some (jsonOptInt port)"
  "memberAt [''result'', ''identity_file'']
     (jsonInfoResponse (successResponse h host port)) = Some (trimmedOrNull (Identity host))"
  "memberAt [''result'', ''proxy_jump'']
     (jsonInfoResponse (successResponse h host port)) = Some (trimmedOrNull (ProxyJump host))"
  "memberAt [''result'', ''proxy_command'']
     (jsonInfoResponse (successResponse h host port)) = Some (trimmedOrNull (ProxyCommand host))"
  "memberAt [''result'', ''options'']
     (jsonInfoResponse (successResponse h host port)) = Some (trimmedOrNull (Options host))"
  "memberAt [''result'', ''remote_command'']
     (jsonInfoResponse (successResponse h host port)) = Some (trimmedOrNull (RemoteCommand host))"
  "memberAt [''result'', ''request_tty'']
     (jsonInfoResponse (successResponse h host port)) = Some (trimmedOrNull (RequestTTY host))"
  by (simp_all add: jsonInfoResponse_def successResponse_def jsonInfoResult_def
        jsonInfoTarget_def maybeString_trimmedOrNull)






lemma runInfo_port_failed_doc:
  assumes "infoLookup w hostnameArg cfgFile = Inr host" and "maybePort (Port host) = Inl e"
  shows "\<exists>doc. runInfo w out hostnameArg cfgFile pretty = (out @ [doc], 1) \<and>
     member ''ok'' doc = Some (JBool False) \<and>
     member ''result'' doc = Some JNull \<and>
     (doc = internalErrorDoc \<and> (\<exists>r. json_err w pretty r \<noteq> None) \<or>
      member ''error'' doc =
        Some (JObj [(''code'', JStr ''CONFIG_ERROR''),
                    (''message'', JStr ''invalid port in host configuration''),
                    (''details'', JNull)]))"
  by (rule writeInfoJSON_cases [of w out pretty "failureResponse hostnameArg
        ''CONFIG_ERROR'' ''invalid port in host configuration''"])
     (auto simp add: runInfo_port_failed [OF assms] internalErrorDoc_shape failure_shape)

text \<open>
  C6.  When the lookup finds the host and its \<open>Port\<close> value, white space aside, is not
  empty and not a decimal numeral, \<open>runInfo\<close> returns 1 and writes a document with
  \<open>ok\<close> false, no result and an error: \<open>CONFIG_ERROR\<close> with the message
  \<open>invalid port in host configuration\<close> (or \<open>INTERNAL\<close>, had marshalling failed).
\<close>

theorem C6_non_numeric_port_is_an_error:
  assumes "infoLookup w hostnameArg cfgFile = Inr host"
    and "TrimSpace (Port host) \<noteq> []"
    and "\<not> isDecimal (TrimSpace (Port host))"
  shows "\<exists>doc. runInfo w out hostnameArg cfgFile pretty = (out @ [doc], 1) \<and>
     member ''ok'' doc = Some (JBool False) \<and>
     member ''result'' doc = Some JNull \<and>
     (doc = internalErrorDoc \<and> (\<exists>r. json_err w pretty r \<noteq> None) \<or>
      member ''error'' doc =
        Some (JObj [(''code'', JStr ''CONFIG_ERROR''),
                    (''message'', JStr ''invalid port in host configuration''),
                    (''details'', JNull)]))"
proof -
  from assms(2,3) obtain e where "maybePort (Port host) = Inl e"
    using maybePort_error_iff [of "Port host"] by auto
  with assms(1) show ?thesis by (rule runInfo_port_failed_doc)
qed

theorem C6_non_numeric_port_is_an_error_witness:
  "infoLookup (testWorld [] False [portAbc] hostNotFound) ''x'' ''/tmp/config'' = Inr portAbc \<and>
   TrimSpace (Port portAbc) = ''abc'' \<and> \<not> isDecimal ''abc'' \<and>
   (\<exists>doc. runInfo (testWorld [] False [portAbc] hostNotFound) [] ''x'' ''/tmp/config'' False
             = ([doc], 1) \<and>
      memberAt [''error'', ''code''] doc = Some (JStr ''CONFIG_ERROR''))"
proof -
  have lookup: "infoLookup (testWorld [] False [portAbc] hostNotFound) ''x'' ''/tmp/config''
                  = Inr portAbc"
    by code_simp
  have port: "TrimSpace (Port portAbc) = ''abc''"
    by code_simp
  have nondec: "\<not> isDecimal ''abc''"
    by code_simp
  have ok: "\<forall>r. json_err (testWorld [] False [portAbc] hostNotFound) False r = None"
    by (simp add: testWorld_def)
  from C6_non_numeric_port_is_an_error
    [of "testWorld [] False [portAbc] hostNotFound" "''x''" "''/tmp/config''" portAbc "[]" False]
  show ?thesis
    using lookup port nondec ok by auto
qed

text \<open>
  C10, as the code has it.  The second half of the claim fails: \<open>9223372036854775808\<close>
  is a decimal integer and not empty, and the port parse fails on it all the same
  (\<open>strconv.Atoi\<close> reports a value out of the range of \<open>int\<close>).
\<close>

theorem C10_out_of_range_counterexample:
  "isDecimal (TrimSpace (Port portHuge)) \<and>
   decimalValue (TrimSpace (Port portHuge)) = 9223372036854775808 \<and>
   maybePort (Port portHuge) = Inl ErrRange \<and>
   runInfo (testWorld [] False [portHuge] hostNotFound) [] ''z'' ''/tmp/config'' False =
     ([JObj
        [(''schema'', JStr ''sshm.info.v1''), (''ok'', JBool False),
         (''hostname'', JStr ''z''), (''result'', JNull),
         (''error'',
          JObj [(''code'', JStr ''CONFIG_ERROR''),
                (''message'', JStr ''invalid port in host configuration''),
                (''details'', JNull)])]],
      1)"
  by code_simp

text \<open>
  C10, amended.  When the lookup finds the host: if its \<open>Port\<close> value is empty or white
  space only, \<open>runInfo\<close> returns 0 and the port of the document is \<open>null\<close>, with no
  error; and the run fails exactly when the value, white space aside, is not empty and
  is not a decimal integer of the range of a 64-bit \<open>int\<close>.
\<close>

theorem C10_blank_port_is_null:
  assumes "infoLookup w hostnameArg cfgFile = Inr host"
  shows "(TrimSpace (Port host) = [] \<longrightarrow>
           (\<exists>doc. runInfo w out hostnameArg cfgFile pretty = (out @ [doc], 0) \<and>
              (doc = internalErrorDoc \<and> (\<exists>r. json_err w pretty r \<noteq> None) \<or>
               memberAt [''result'', ''target'', ''port''] doc = Some JNull \<and>
               member ''error'' doc = Some JNull))) \<and>
         (snd (runInfo w out hostnameArg cfgFile pretty) \<noteq> 0 \<longleftrightarrow>
            TrimSpace (Port host) \<noteq> [] \<and>
            \<not> (isDecimal (TrimSpace (Port host)) \<and>
               - (2 ^ 63) \<le> decimalValue (TrimSpace (Port host)) \<and>
               decimalValue (TrimSpace (Port host)) < 2 ^ 63))"
proof (intro conjI impI)
  assume blank: "TrimSpace (Port host) = []"
  then have port: "maybePort (Port host) = Inr None" by (rule maybePort_empty)
  show "\<exists>doc. runInfo w out hostnameArg cfgFile pretty = (out @ [doc], 0) \<and>
              (doc = internalErrorDoc \<and> (\<exists>r. json_err w pretty r \<noteq> None) \<or>
               memberAt [''result'', ''target'', ''port''] doc = Some JNull \<and>
               member ''error'' doc = Some JNull)"
    by (rule writeInfoJSON_cases [of w out pretty "successResponse hostnameArg host None"])
       (auto simp add: runInfo_succeeded [OF assms port] success_members success_shape
          jsonOptInt_def simp del: memberAt.simps)
next
  show "snd (runInfo w out hostnameArg cfgFile pretty) \<noteq> 0 \<longleftrightarrow>
            TrimSpace (Port host) \<noteq> [] \<and>
            \<not> (isDecimal (TrimSpace (Port host)) \<and>
               - (2 ^ 63) \<le> decimalValue (TrimSpace (Port host)) \<and>
               decimalValue (TrimSpace (Port host)) < 2 ^ 63)"
  proof (cases "maybePort (Port host)")
    case (Inl e)
    then show ?thesis
      using maybePort_error_iff [of "Port host"] by (simp add: runInfo_port_failed [OF assms Inl])
  next
    case (Inr port)
    then show ?thesis
      using maybePort_error_iff [of "Port host"] by (simp add: runInfo_succeeded [OF assms Inr])
  qed
qed

theorem C10_blank_port_is_null_witness:
  "infoLookup (testWorld [] False [portBlank] hostNotFound) ''y'' ''/tmp/config''
     = Inr portBlank \<and>
   Port portBlank = [CHR 0x20, CHR 0x09] \<and> TrimSpace (Port portBlank) = [] \<and>
   (\<exists>doc. runInfo (testWorld [] False [portBlank] hostNotFound) [] ''y'' ''/tmp/config'' False
             = ([doc], 0) \<and>
      memberAt [''result'', ''target'', ''port''] doc = Some JNull \<and>
      member ''error'' doc = Some JNull)"
proof -
  have lookup: "infoLookup (testWorld [] False [portBlank] hostNotFound) ''y'' ''/tmp/config''
                  = Inr portBlank"
    by code_simp
  have port: "Port portBlank = [CHR 0x20, CHR 0x09]"
    by (simp add: portBlank_def unsetHost_def)
  have blank: "TrimSpace (Port portBlank) = []"
    by code_simp
  have ok: "\<forall>r. json_err (testWorld [] False [portBlank] hostNotFound) False r = None"
    by (simp add: testWorld_def)
  from C10_blank_port_is_null [OF lookup, of "[]" False]
  show ?thesis
    using lookup port blank ok by (auto simp del: memberAt.simps)
qed

section \<open>How a lookup failure is classified\<close>





section \<open>Completion\<close>






section \<open>The direct-connect path\<close>

lemma connectToHost_check_failed:
  assumes "quickCheck w hostName = Inl err"
  shows "connectToHost w hostName remoteCommand =
           [Log (''Error checking SSH config: '' @ err_Error err), Exit 1]"
  using assms by (simp add: connectToHost_def quickCheck_def)

lemma connectToHost_not_found:
  assumes "quickCheck w hostName = Inr False"
  shows "connectToHost w hostName remoteCommand =
           [Stdout (''Error: Host '' @ [CHR 0x27] @ hostName @ [CHR 0x27] @
                    '' not found in SSH configuration.'' @ [CHR 0x0A]),
            Stdout (''Use '' @ [CHR 0x27] @ ''sshm'' @ [CHR 0x27] @
                    '' to see available hosts.'' @ [CHR 0x0A]),
            Exit 1]"
  using assms by (simp add: connectToHost_def quickCheck_def)

lemma connectToHost_found:
  assumes "quickCheck w hostName = Inr True"
  shows "\<exists>before after.
           connectToHost w hostName remoteCommand =
             NewHistoryManager # before @
             [Command ''ssh''
                ((if configFile w \<noteq> [] then [''-F'', configFile w] else []) @
                 (if forceTTY w then [''-t''] else []) @ [hostName] @ remoteCommand)] @ after \<and>
           \<not> list_ex isCommand before \<and> \<not> list_ex isCommand after"
proof -
  let ?args = "(if configFile w \<noteq> [] then [''-F'', configFile w] else []) @
               (if forceTTY w then [''-t''] else []) @ [hostName] @ remoteCommand"
  let ?hist = "case hist_NewHistoryManager w of
                 Some err \<Rightarrow>
                   [Stdout (''Warning: Could not initialize connection history: '' @ err @
                            [CHR 0x0A])]
               | None \<Rightarrow>
                   RecordConnection hostName #
                   (case hist_RecordConnection w hostName of
                      Some err \<Rightarrow>
                        [Stdout (''Warning: Could not record connection history: '' @ err @
                                 [CHR 0x0A])]
                    | None \<Rightarrow> [])"
  let ?connecting = "if length remoteCommand > 0 then []
                     else [Stdout (''Connecting to '' @ hostName @ ''...'' @ [CHR 0x0A])]"
  let ?after = "case ssh_Run w ?args of
                  RunOk \<Rightarrow> []
                | RunExitStatus status \<Rightarrow> [Exit status]
                | RunError err \<Rightarrow>
                    [Stdout (''Error executing SSH command: '' @ err @ [CHR 0x0A]), Exit 1]"
  have run: "connectToHost w hostName remoteCommand =
               NewHistoryManager # (?hist @ ?connecting) @ [Command ''ssh'' ?args] @ ?after"
    using assms by (simp add: connectToHost_def quickCheck_def Let_def)
  have before: "\<not> list_ex isCommand (?hist @ ?connecting)"
    by (simp add: isCommand_def split: option.splits)
  have after: "\<not> list_ex isCommand ?after"
    by (simp add: isCommand_def split: run_result.splits)
  from run before after show ?thesis by blast
qed

text \<open>
  C8.  The only command the direct-connect path runs is \<open>ssh\<close>, once, when the existence
  check has passed, and its arguments are, in this order: \<open>-F\<close> and the configuration
  path when one is set, \<open>-t\<close> when a TTY is forced, the host name, the tokens of the
  remote command.
\<close>

theorem C8_ssh_argument_vector:
  "filter isCommand (connectToHost w hostName remoteCommand) =
     (if quickCheck w hostName = Inr True
      then [Command ''ssh''
              ((if configFile w \<noteq> [] then [''-F'', configFile w] else []) @
               (if forceTTY w then [''-t''] else []) @ [hostName] @ remoteCommand)]
      else [])"
proof (cases "quickCheck w hostName")
  case (Inl err)
  then show ?thesis
    by (simp add: connectToHost_check_failed isCommand_def)
next
  case (Inr hostFound)
  show ?thesis
  proof (cases hostFound)
    case True
    with Inr have found: "quickCheck w hostName = Inr True" by simp
    from connectToHost_found [OF found, of remoteCommand]
    obtain before after where
      run: "connectToHost w hostName remoteCommand =
              NewHistoryManager # before @
              [Command ''ssh''
                 ((if configFile w \<noteq> [] then [''-F'', configFile w] else []) @
                  (if forceTTY w then [''-t''] else []) @ [hostName] @ remoteCommand)] @ after"
      and quiet: "\<not> list_ex isCommand before" "\<not> list_ex isCommand after"
      by blast
    from quiet have "filter isCommand before = []" "filter isCommand after = []"
      by (simp_all add: list_ex_iff filter_empty_conv)
    then show ?thesis
      unfolding run found by (simp add: isCommand_def)
  next
    case False
    with Inr have "quickCheck w hostName = Inr False" by simp
    then show ?thesis
      by (simp add: connectToHost_not_found isCommand_def)
  qed
qed

theorem C8_ssh_argument_vector_witness:
  "quickCheck (testWorld ''/tmp/config'' True threeHosts hostNotFound) ''dev-server'' = Inr True \<and>
   filter isCommand
     (connectToHost (testWorld ''/tmp/config'' True threeHosts hostNotFound) ''dev-server''
        [''ls'', ''-la'', ''/var'']) =
     [Command ''ssh'' [''-F'', ''/tmp/config'', ''-t'', ''dev-server'', ''ls'', ''-la'', ''/var'']]"
proof -
  have found: "quickCheck (testWorld ''/tmp/config'' True threeHosts hostNotFound) ''dev-server''
                 = Inr True"
    by code_simp
  have flags: "configFile (testWorld ''/tmp/config'' True threeHosts hostNotFound) = ''/tmp/config''"
    "forceTTY (testWorld ''/tmp/config'' True threeHosts hostNotFound)"
    by (simp_all add: testWorld_def)
  from C8_ssh_argument_vector
    [of "testWorld ''/tmp/config'' True threeHosts hostNotFound" "''dev-server''"
        "[''ls'', ''-la'', ''/var'']"]
  show ?thesis
    by (simp add: found flags)
qed

text \<open>
  C9.  The path records history or runs \<open>ssh\<close> only when the existence check has
  answered that the host is declared.  When it answers that it is not, the path prints
  the error and the hint and exits with status 1, and that is all it does.
\<close>

theorem C9_no_history_no_ssh_for_unknown_host:
  "(list_ex isHistoryOrSsh (connectToHost w hostName remoteCommand) \<longleftrightarrow>
      quickCheck w hostName = Inr True) \<and>
   (quickCheck w hostName = Inr False \<longrightarrow>
      connectToHost w hostName remoteCommand =
        [Stdout (''Error: Host '' @ [CHR 0x27] @ hostName @ [CHR 0x27] @
                 '' not found in SSH configuration.'' @ [CHR 0x0A]),
         Stdout (''Use '' @ [CHR 0x27] @ ''sshm'' @ [CHR 0x27] @
                 '' to see available hosts.'' @ [CHR 0x0A]),
         Exit 1])"
proof (cases "quickCheck w hostName")
  case (Inl err)
  then show ?thesis
    by (simp add: connectToHost_check_failed isHistoryOrSsh_def)
next
  case (Inr hostFound)
  show ?thesis
  proof (cases hostFound)
    case True
    with Inr have found: "quickCheck w hostName = Inr True" by simp
    from connectToHost_found [OF found, of remoteCommand]
    show ?thesis
      using found by (auto simp add: isHistoryOrSsh_def)
  next
    case False
    with Inr have "quickCheck w hostName = Inr False" by simp
    then show ?thesis
      by (simp add: connectToHost_not_found isHistoryOrSsh_def)
  qed
qed

theorem C9_no_history_no_ssh_for_unknown_host_witness:
  "quickCheck (testWorld [] False threeHosts hostNotFound) ''dev-servr'' = Inr False \<and>
   \<not> list_ex isHistoryOrSsh
       (connectToHost (testWorld [] False threeHosts hostNotFound) ''dev-servr'' []) \<and>
   last (connectToHost (testWorld [] False threeHosts hostNotFound) ''dev-servr'' []) = Exit 1"
proof -
  have typo: "quickCheck (testWorld [] False threeHosts hostNotFound) ''dev-servr'' = Inr False"
    by code_simp
  from C9_no_history_no_ssh_for_unknown_host
    [of "testWorld [] False threeHosts hostNotFound" "''dev-servr''" "[]"]
  show ?thesis
    using typo by (simp add: isHistoryOrSsh_def)
qed

section \<open>The quick check and the full lookup\<close>






end
